theory Spec2Isabelle
  imports Main "HOL-Library.Sublist"
begin

section \<open>Python values, errors and the outside world\<close>

text \<open>
  Exceptions are values. Only subclasses of Python's \<open>Exception\<close> are modelled: the
  asynchronous \<open>KeyboardInterrupt\<close> and \<open>SystemExit\<close> are outside the model.
  Strings are lists of 8-bit characters, read as code points below 256.
\<close>

datatype error =
    RuntimeError string
  | OSError string
  | ValueError string
  | DownloadError string
  | OtherException string

text \<open>The text of an exception, as \<open>str(e)\<close> gives it.\<close>

fun error_text :: "error \<Rightarrow> string" where
  "error_text (RuntimeError m) = m"
| "error_text (OSError m) = m"
| "error_text (ValueError m) = m"
| "error_text (DownloadError m) = m"
| "error_text (OtherException m) = m"

datatype level = DEBUG | INFO | ERROR

text \<open>An argument of a logging call, before \<open>%\<close>-formatting.\<close>

datatype logarg = AStr string | AInt int | ANone | AErr error

text \<open>One call of a logger method: level, format string, arguments.\<close>

type_synonym log_entry = "level \<times> string \<times> logarg list"

text \<open>
  A \<open>pathlib.PosixPath\<close> after parsing: the root (\<open>''''\<close> for a relative path,
  \<open>''/''\<close> or \<open>''//''\<close> otherwise) and the components of the tail. The drive is always
  empty on POSIX.
\<close>

record pypath =
  p_root :: string
  p_parts :: "string list"

text \<open>\<open>str.split(sep)\<close> for a one-character separator.\<close>

fun split_on :: "char \<Rightarrow> string \<Rightarrow> string list" where
  "split_on c [] = [[]]"
| "split_on c (x # xs) =
     (if x = c then [] # split_on c xs
      else (case split_on c xs of
              [] \<Rightarrow> [[x]]
            | r # rs \<Rightarrow> (x # r) # rs))"

text \<open>\<open>sep.join(xs)\<close>.\<close>

fun join_with :: "string \<Rightarrow> string list \<Rightarrow> string" where
  "join_with sep [] = []"
| "join_with sep [x] = x"
| "join_with sep (x # y # ys) = x @ sep @ join_with sep (y # ys)"

text \<open>\<open>posixpath.splitroot\<close>: exactly two leading slashes are kept as the root.\<close>

definition splitroot :: "string \<Rightarrow> string \<times> string" where
  "splitroot p =
     (if take 1 p \<noteq> ''/'' then ('''', p)
      else if take 1 (drop 1 p) \<noteq> ''/'' \<or> take 1 (drop 2 p) = ''/'' then (''/'', drop 1 p)
      else (take 2 p, drop 2 p))"

text \<open>\<open>PurePath._parse_path\<close> on POSIX: empty and \<open>.\<close> components are dropped.\<close>

definition parse_path :: "string \<Rightarrow> pypath" where
  "parse_path path =
     (if path = [] then \<lparr>p_root = [], p_parts = []\<rparr>
      else (let (root, rel) = splitroot path
            in \<lparr>p_root = root,
                p_parts = filter (\<lambda>x. x \<noteq> [] \<and> x \<noteq> ''.'') (split_on (CHR ''/'') rel)\<rparr>))"

text \<open>\<open>str(path)\<close>: \<open>_format_parsed_parts\<close>, or \<open>.\<close> for the empty path.\<close>

definition path_str :: "pypath \<Rightarrow> string" where
  "path_str p =
     (let s = p_root p @ join_with ''/'' (p_parts p)
      in if s = [] then ''.'' else s)"

text \<open>
  \<open>path / key\<close> for a string key: the segments are joined by \<open>posixpath.join\<close> and
  parsed again, so a rooted key replaces the path and any other key extends its tail.
\<close>

definition path_join :: "pypath \<Rightarrow> string \<Rightarrow> pypath" where
  "path_join p key =
     (let q = parse_path key
      in if p_root q \<noteq> [] then q
         else \<lparr>p_root = p_root p, p_parts = p_parts p @ p_parts q\<rparr>)"

text \<open>\<open>path.parent\<close>: the path without its last component; the anchor is its own parent.\<close>

definition path_parent :: "pypath \<Rightarrow> pypath" where
  "path_parent p = p\<lparr>p_parts := butlast (p_parts p)\<rparr>"

definition is_absolute :: "pypath \<Rightarrow> bool" where
  "is_absolute p = (p_root p \<noteq> [])"

subsection \<open>What the extraction library delivers\<close>

text \<open>
  A key of a Python dict is absent, present with value \<open>None\<close>, or present with a value.
\<close>

datatype 'a field = Absent | Null | Present 'a

text \<open>
  A playlist entry of the metadata: a dict that always carries an id, hence truthy.
  An unavailable item is \<open>None\<close> in the entry list.
\<close>

record entry =
  entry_id :: string
  entry_title :: string

text \<open>
  The info dict returned by \<open>extract_info\<close>: the \<open>entries\<close> key and the remaining
  keys. The dict is empty (falsy) when it has no key at all.
\<close>

record info_dict =
  info_entries :: "entry option list field"
  info_other :: "(string \<times> string) list"

text \<open>
  The dict passed to a progress hook. A field is \<open>None\<close> when the key is absent;
  \<open>ev_title\<close> is \<open>info_dict.title\<close>.
\<close>

record event =
  ev_status :: "string option"
  ev_filename :: "string option"
  ev_title :: "string option"
  ev_percent :: "string option"

record postprocessor =
  pp_key :: string
  pp_preferredcodec :: string

text \<open>
  The options dict built by \<open>_build_opts\<close>. The two audio-only keys are \<open>None\<close> when
  the key is not set. The \<open>progress_hooks\<close> key is the closure of \<open>download\<close>, which
  the model applies to the events itself.
\<close>

record ydl_opts =
  opt_format :: string
  opt_outtmpl :: string
  opt_ignoreerrors :: bool
  opt_no_warnings :: bool
  opt_quiet :: bool
  opt_extract_flat :: bool
  opt_postprocessors :: "postprocessor list option"
  opt_postprocessor_args :: "(string \<times> string list) list option"

text \<open>A call into the extraction library, which is where the network is used.\<close>

datatype net_call = ExtractInfo string | YdlDownload ydl_opts string

text \<open>
  The mutable world: the log written so far, the library calls made so far, and the
  directories that exist.
\<close>

record world =
  w_log :: "log_entry list"
  w_net :: "net_call list"
  w_dirs :: "pypath list"

text \<open>
  The environment the program reads but does not change:
  \<^item> \<open>which_ffmpeg\<close>: the result of \<open>shutil.which("ffmpeg")\<close>;
  \<^item> \<open>extract_info\<close>: what \<open>YoutubeDL(opts).extract_info(url, download=False)\<close> does
    under the fixed options of \<open>get_playlist_info\<close>: it raises or returns an info dict
    or \<open>None\<close>;
  \<^item> \<open>ydl_download\<close>: what \<open>YoutubeDL(opts).download([url])\<close> does: the events it
    passes to the progress hooks, in order, and the exception it ends with, if any;
  \<^item> \<open>home_of\<close>: the home directory of a user (\<open>''''\<close> is the invoking user), \<open>None\<close>
    when it cannot be determined;
  \<^item> \<open>realpath\<close>: what \<open>Path.resolve()\<close> finds in the file system for a path
    string without a NUL character: the canonical path, taken from the current directory
    when relative and with every symbolic link followed, or the exception raised
    (RuntimeError for a loop of symbolic links, OSError when the current directory is gone);
  \<^item> \<open>module_file\<close>: \<open>__file__\<close> of \<open>config.py\<close>;
  \<^item> \<open>mkdir_permitted\<close>: whether the directory may be created;
  \<^item> \<open>stdin_line\<close>: the line \<open>input()\<close> reads, \<open>None\<close> at end of input.
\<close>

record env =
  which_ffmpeg :: "string option"
  extract_info :: "string \<Rightarrow> error + info_dict option"
  ydl_download :: "ydl_opts \<Rightarrow> string \<Rightarrow> event list \<times> error option"
  home_of :: "string \<Rightarrow> string option"
  realpath :: "string \<Rightarrow> error + string"
  module_file :: string
  mkdir_permitted :: "pypath \<Rightarrow> bool"
  stdin_line :: "string option"

definition log_call :: "level \<Rightarrow> string \<Rightarrow> logarg list \<Rightarrow> world \<Rightarrow> world" where
  "log_call lv fmt args w = w\<lparr>w_log := w_log w @ [(lv, fmt, args)]\<rparr>"

subsection \<open>The parts of pathlib that read the environment\<close>

text \<open>
  \<open>Path.resolve()\<close>: \<open>posixpath.realpath\<close> on the string of the path, the check for a
  loop of symbolic links, and the result parsed again. A NUL character in the path makes
  \<open>os.lstat\<close> raise ValueError, which \<open>realpath\<close> does not catch; everything else is
  what the file system says.
\<close>

definition resolve :: "env \<Rightarrow> pypath \<Rightarrow> error + pypath" where
  "resolve e p =
     (let s = path_str p
      in if CHR 0x00 \<in> set s then Inl (ValueError ''embedded null byte'')
         else (case realpath e s of
                 Inl err \<Rightarrow> Inl err
               | Inr r \<Rightarrow> Inr (parse_path r)))"

text \<open>\<open>userhome.rstrip('/')\<close>.\<close>

definition rstrip_slash :: "string \<Rightarrow> string" where
  "rstrip_slash s = rev (dropWhile (\<lambda>c. c = CHR ''/'') (rev s))"

text \<open>
  \<open>posixpath.expanduser\<close> on one path component that starts with \<open>~\<close>: the home of
  the invoking user for \<open>~\<close>, of the named user for \<open>~name\<close>; the component is
  returned unchanged when the home is unknown. The lookup of a user name with a NUL
  character (\<open>pwd.getpwnam\<close>) raises ValueError.
\<close>

definition posix_expanduser :: "env \<Rightarrow> string \<Rightarrow> error + string" where
  "posix_expanduser e part =
     (let name = drop 1 part
      in if CHR 0x00 \<in> set name then Inl (ValueError ''embedded null byte'')
         else (case home_of e name of
                 None \<Rightarrow> Inr part
               | Some userhome \<Rightarrow>
                   (let h = rstrip_slash userhome in Inr (if h = [] then ''/'' else h))))"

text \<open>\<open>Path.expanduser()\<close>.\<close>

definition expanduser :: "env \<Rightarrow> pypath \<Rightarrow> error + pypath" where
  "expanduser e p =
     (if p_root p = [] \<and> p_parts p \<noteq> [] \<and> take 1 (hd (p_parts p)) = ''~'' then
        (case posix_expanduser e (hd (p_parts p)) of
           Inl err \<Rightarrow> Inl err
         | Inr homedir \<Rightarrow>
             if take 1 homedir = ''~''
             then Inl (RuntimeError ''Could not determine home directory.'')
             else (let q = parse_path homedir
                   in Inr \<lparr>p_root = p_root q, p_parts = p_parts q @ tl (p_parts p)\<rparr>))
      else Inr p)"

section \<open>config.py\<close>

definition OUTPUT_TEMPLATE :: string where
  "OUTPUT_TEMPLATE = ''%(playlist_title)s/%(title)s.%(ext)s''"

definition SINGLE_VIDEO_TEMPLATE :: string where
  "SINGLE_VIDEO_TEMPLATE = ''%(title)s.%(ext)s''"

definition OUTPUT_TEMPLATE_WAV :: string where
  "OUTPUT_TEMPLATE_WAV = ''%(playlist_title)s/%(title)s.wav''"

definition SINGLE_VIDEO_TEMPLATE_WAV :: string where
  "SINGLE_VIDEO_TEMPLATE_WAV = ''%(title)s.wav''"

definition DOWNLOAD_DIR_NAME :: string where
  "DOWNLOAD_DIR_NAME = ''download''"

definition YOUTUBE_DOMAINS :: "string list" where
  "YOUTUBE_DOMAINS = [''youtube.com'', ''youtu.be'', ''www.youtube.com'']"

definition FFMPEG_EXTRACT_AUDIO :: string where
  "FFMPEG_EXTRACT_AUDIO = ''wav''"

definition get_app_root :: "env \<Rightarrow> error + pypath" where
  "get_app_root e =
     (case resolve e (parse_path (module_file e)) of
        Inl err \<Rightarrow> Inl err
      | Inr p \<Rightarrow> Inr (path_parent (path_parent p)))"

definition get_default_output_dir :: "env \<Rightarrow> error + pypath" where
  "get_default_output_dir e =
     (case get_app_root e of
        Inl err \<Rightarrow> Inl err
      | Inr root \<Rightarrow> Inr (path_join root DOWNLOAD_DIR_NAME))"

section \<open>validators.py\<close>

subsection \<open>Regular expressions\<close>

text \<open>
  The fragment of Python's \<open>re\<close> syntax that the URL pattern uses. \<open>Dot\<close> is \<open>.\<close>
  without \<open>DOTALL\<close>: any character but a newline.
\<close>

datatype regex =
    Nul
  | Eps
  | Chr char
  | Dot
  | Seq regex regex
  | Alt regex regex
  | Star regex

definition Opt :: "regex \<Rightarrow> regex" where
  "Opt r = Alt r Eps"

definition Plus :: "regex \<Rightarrow> regex" where
  "Plus r = Seq r (Star r)"

fun lit :: "string \<Rightarrow> regex" where
  "lit [] = Eps"
| "lit (c # cs) = Seq (Chr c) (lit cs)"

definition is_upper :: "char \<Rightarrow> bool" where
  "is_upper c = (65 \<le> (of_char c :: nat) \<and> (of_char c :: nat) \<le> 90)"

definition is_lower :: "char \<Rightarrow> bool" where
  "is_lower c = (97 \<le> (of_char c :: nat) \<and> (of_char c :: nat) \<le> 122)"

definition is_digit :: "char \<Rightarrow> bool" where
  "is_digit c = (48 \<le> (of_char c :: nat) \<and> (of_char c :: nat) \<le> 57)"

text \<open>\<open>str.lower()\<close> on one ASCII character.\<close>

definition lower_char :: "char \<Rightarrow> char" where
  "lower_char c = (if is_upper c then char_of ((of_char c :: nat) + 32) else c)"

text \<open>One pattern character against one input character, under \<open>re.IGNORECASE\<close> or not.\<close>

definition chr_eq :: "bool \<Rightarrow> char \<Rightarrow> char \<Rightarrow> bool" where
  "chr_eq ic c x = (if ic then lower_char c = lower_char x else c = x)"

fun nullable :: "regex \<Rightarrow> bool" where
  "nullable Nul = False"
| "nullable Eps = True"
| "nullable (Chr c) = False"
| "nullable Dot = False"
| "nullable (Seq r s) = (nullable r \<and> nullable s)"
| "nullable (Alt r s) = (nullable r \<or> nullable s)"
| "nullable (Star r) = True"

text \<open>The derivative of a pattern by one input character.\<close>

fun deriv :: "bool \<Rightarrow> char \<Rightarrow> regex \<Rightarrow> regex" where
  "deriv ic x Nul = Nul"
| "deriv ic x Eps = Nul"
| "deriv ic x (Chr c) = (if chr_eq ic c x then Eps else Nul)"
| "deriv ic x Dot = (if x = CHR 0x0A then Nul else Eps)"
| "deriv ic x (Seq r s) =
     (if nullable r then Alt (Seq (deriv ic x r) s) (deriv ic x s)
      else Seq (deriv ic x r) s)"
| "deriv ic x (Alt r s) = Alt (deriv ic x r) (deriv ic x s)"
| "deriv ic x (Star r) = Seq (deriv ic x r) (Star r)"

text \<open>
  \<open>pattern.match(s)\<close> as a truth value: some prefix of \<open>s\<close> matches the pattern.
\<close>

fun re_match :: "bool \<Rightarrow> regex \<Rightarrow> string \<Rightarrow> bool" where
  "re_match ic r [] = nullable r"
| "re_match ic r (x # xs) = (nullable r \<or> re_match ic (deriv ic x r) xs)"

text \<open>
  \<open>^https?://(www\.)?(youtube\.com|youtu\.be)/.+\<close>. The anchor \<open>^\<close> adds nothing
  to \<open>match\<close>, which only matches at the start of the string.
\<close>

definition YOUTUBE_URL_PATTERN :: regex where
  "YOUTUBE_URL_PATTERN =
     Seq (lit ''http'')
    (Seq (Opt (Chr CHR ''s''))
    (Seq (lit ''://'')
    (Seq (Opt (lit ''www.''))
    (Seq (Alt (lit ''youtube.com'') (lit ''youtu.be''))
    (Seq (Chr CHR ''/'')
         (Plus Dot))))))"

subsection \<open>The parts of urllib.parse that the validator reads\<close>

text \<open>
  \<open>str.strip()\<close>: the white space of Python among the code points below 256.
\<close>

definition is_space :: "char \<Rightarrow> bool" where
  "is_space c =
     (let n = (of_char c :: nat)
      in (9 \<le> n \<and> n \<le> 13) \<or> (28 \<le> n \<and> n \<le> 32) \<or> n = 133 \<or> n = 160)"

definition strip :: "string \<Rightarrow> string" where
  "strip s = rev (dropWhile is_space (rev (dropWhile is_space s)))"

text \<open>\<open>_WHATWG_C0_CONTROL_OR_SPACE\<close>: the code points up to the space.\<close>

definition is_c0_or_space :: "char \<Rightarrow> bool" where
  "is_c0_or_space c = ((of_char c :: nat) \<le> 32)"

text \<open>\<open>_UNSAFE_URL_BYTES_TO_REMOVE\<close>: tab, carriage return, newline.\<close>

definition is_unsafe_url_byte :: "char \<Rightarrow> bool" where
  "is_unsafe_url_byte c = (c = CHR 0x09 \<or> c = CHR 0x0D \<or> c = CHR 0x0A)"

definition is_scheme_char :: "char \<Rightarrow> bool" where
  "is_scheme_char c =
     (is_lower c \<or> is_upper c \<or> is_digit c \<or> c = CHR ''+'' \<or> c = CHR ''-'' \<or> c = CHR ''.'')"

text \<open>The two fields of the parse result that the validator reads.\<close>

record parse_result =
  scheme :: string
  netloc :: string

text \<open>
  \<open>urlparse(url)\<close>, as far as scheme and netloc go (\<open>urlsplit\<close>): leading control
  characters and spaces are stripped, tab, CR and LF are removed, a leading run of scheme
  characters before the first colon is the scheme, in lower case, and after \<open>//\<close> the
  netloc runs to the first of \<open>/ ? #\<close>. A netloc with only one of the two brackets
  raises ValueError. The validation of a netloc with both brackets (an IPv6 literal) is
  not modelled: the model raises for each, as the library does for the malformed ones.
  A string that matches the URL pattern has no bracket in its netloc.
\<close>

definition urlparse :: "string \<Rightarrow> error + parse_result" where
  "urlparse url0 =
     (let url1 = filter (\<lambda>c. \<not> is_unsafe_url_byte c) (dropWhile is_c0_or_space url0);
          pre = takeWhile (\<lambda>c. c \<noteq> CHR '':'') url1;
          has_colon = (CHR '':'' \<in> set url1);
          is_scheme = (has_colon \<and> pre \<noteq> [] \<and> (is_lower (hd url1) \<or> is_upper (hd url1))
                       \<and> list_all is_scheme_char pre);
          sch = (if is_scheme then map lower_char pre else []);
          url2 = (if is_scheme then drop (length pre + 1) url1 else url1);
          loc = (if take 2 url2 = ''//''
                 then takeWhile (\<lambda>c. c \<noteq> CHR ''/'' \<and> c \<noteq> CHR ''?'' \<and> c \<noteq> CHR ''#'') (drop 2 url2)
                 else [])
      in if CHR ''['' \<in> set loc \<or> CHR '']'' \<in> set loc
         then Inl (ValueError ''Invalid IPv6 URL'')
         else Inr \<lparr>scheme = sch, netloc = loc\<rparr>)"

text \<open>\<open>sub in s\<close> for strings.\<close>

fun is_prefix :: "string \<Rightarrow> string \<Rightarrow> bool" where
  "is_prefix [] s = True"
| "is_prefix (c # cs) [] = False"
| "is_prefix (c # cs) (x # xs) = (c = x \<and> is_prefix cs xs)"

fun contains :: "string \<Rightarrow> string \<Rightarrow> bool" where
  "contains sub [] = (sub = [])"
| "contains sub (x # xs) = (is_prefix sub (x # xs) \<or> contains sub xs)"

subsection \<open>The validator functions\<close>

text \<open>The values the validator may be called with: a string or something else.\<close>

datatype pyobj = PyNone | PyBool bool | PyInt int | PyBytes string | PyStr string

definition is_valid_youtube_url :: "pyobj \<Rightarrow> bool" where
  "is_valid_youtube_url obj =
     (case obj of
        PyStr url0 \<Rightarrow>
          if url0 = [] then False
          else (let url = strip url0
                in if url = [] then False
                   else if \<not> re_match True YOUTUBE_URL_PATTERN url then False
                   else (case urlparse url of
                           Inl e \<Rightarrow> False
                         | Inr parsed \<Rightarrow>
                             (scheme parsed = ''http'' \<or> scheme parsed = ''https'')
                             \<and> list_ex (\<lambda>domain. contains domain (netloc parsed)) YOUTUBE_DOMAINS))
      | _ \<Rightarrow> False)"

text \<open>
  \<open>normalize_output_path\<close> reads the environment and the file system and returns the
  world as it found it.
\<close>

definition normalize_output_path :: "env \<Rightarrow> string \<Rightarrow> world \<Rightarrow> (error + pypath) \<times> world" where
  "normalize_output_path e path w =
     (case expanduser e (parse_path path) of
        Inl err \<Rightarrow> (Inl err, w)
      | Inr p \<Rightarrow> (resolve e p, w))"

text \<open>The path itself and the paths above it, nearest the root first.\<close>

definition path_chain :: "pypath \<Rightarrow> pypath list" where
  "path_chain p = map (\<lambda>k. p\<lparr>p_parts := take k (p_parts p)\<rparr>) [0..<Suc (length (p_parts p))]"

text \<open>
  \<open>path.mkdir(parents=True, exist_ok=True)\<close>: a NUL character in the path raises
  ValueError; nothing happens when the directory exists; otherwise it is created with its
  missing parents, or OSError is raised when the file system does not allow that.
\<close>

definition ensure_output_dir :: "env \<Rightarrow> pypath \<Rightarrow> world \<Rightarrow> (error + pypath) \<times> world" where
  "ensure_output_dir e path w =
     (if CHR 0x00 \<in> set (path_str path) then (Inl (ValueError ''embedded null byte''), w)
      else if path \<in> set (w_dirs w) then (Inr path, w)
      else if mkdir_permitted e path
      then (Inr path,
            w\<lparr>w_dirs := w_dirs w @ filter (\<lambda>d. d \<notin> set (w_dirs w)) (path_chain path)\<rparr>)
      else (Inl (OSError ''Permission denied''), w))"

section \<open>youtube_service.py\<close>

text \<open>
  The methods of \<open>YouTubeDownloadService\<close> take the service record in place of
  \<open>self\<close>. The private methods are written without their leading underscore;
  \<open>_progress_hook\<close> is \<open>progress_hook_inner\<close>, and \<open>progress_hook\<close> is the closure
  that \<open>download\<close> defines.
\<close>

text \<open>
  The progress callback, called with \<open>(current, total, filename, status)\<close>. A callback
  of this program only logs: it is given by the log entries it writes.
\<close>

type_synonym progress_callback = "int \<Rightarrow> int option \<Rightarrow> string \<Rightarrow> string \<Rightarrow> log_entry list"

record service =
  svc_output_dir :: pypath
  svc_download_video :: bool
  svc_progress_callback :: "progress_callback option"

text \<open>\<open>YouTubeDownloadService.__init__\<close>: the output directory is ensured first.\<close>

definition new_service ::
  "env \<Rightarrow> pypath \<Rightarrow> bool \<Rightarrow> progress_callback option \<Rightarrow> world \<Rightarrow> (error + service) \<times> world" where
  "new_service e output_dir download_video cb w =
     (case ensure_output_dir e output_dir w of
        (Inl err, w') \<Rightarrow> (Inl err, w')
      | (Inr d, w') \<Rightarrow>
          (Inr \<lparr>svc_output_dir = d, svc_download_video = download_video,
                svc_progress_callback = cb\<rparr>, w'))"

definition FFMPEG_MISSING :: string where
  "FFMPEG_MISSING =
     ''FFmpeg is not installed or not in PATH. '' @
     ''Audio extraction to WAV requires FFmpeg. '' @
     ''Install: macOS: brew install ffmpeg | Ubuntu: sudo apt install ffmpeg''"

definition check_ffmpeg :: "env \<Rightarrow> error + unit" where
  "check_ffmpeg e =
     (if which_ffmpeg e = None then Inl (RuntimeError FFMPEG_MISSING) else Inr ())"

definition build_opts :: "service \<Rightarrow> bool \<Rightarrow> ydl_opts" where
  "build_opts svc is_playlist =
     (let outtmpl0 =
            (if svc_download_video svc
             then (if is_playlist then OUTPUT_TEMPLATE else SINGLE_VIDEO_TEMPLATE)
             else (if is_playlist then OUTPUT_TEMPLATE_WAV else SINGLE_VIDEO_TEMPLATE_WAV));
          outtmpl = path_str (path_join (svc_output_dir svc) outtmpl0);
          opts = \<lparr>opt_format =
                    (if \<not> svc_download_video svc then ''bestaudio/best''
                     else ''bestvideo+bestaudio/best''),
                  opt_outtmpl = outtmpl,
                  opt_ignoreerrors = True,
                  opt_no_warnings = False,
                  opt_quiet = False,
                  opt_extract_flat = False,
                  opt_postprocessors = None,
                  opt_postprocessor_args = None\<rparr>
      in if \<not> svc_download_video svc
         then opts\<lparr>opt_postprocessors :=
                      Some [\<lparr>pp_key = ''FFmpegExtractAudio'',
                             pp_preferredcodec = FFMPEG_EXTRACT_AUDIO\<rparr>],
                    opt_postprocessor_args :=
                      Some [(''extractaudio+ffmpeg'',
                             [''-ar'', ''44100'', ''-ac'', ''2'', ''-acodec'', ''pcm_s16le''])]\<rparr>
         else opts)"

text \<open>\<open>_progress_hook\<close>: forwards to the callback and logs.\<close>

definition progress_hook_inner :: "service \<Rightarrow> event \<Rightarrow> int \<Rightarrow> int option \<Rightarrow> world \<Rightarrow> world" where
  "progress_hook_inner svc d cur total_n w =
     (let status = (case ev_status d of None \<Rightarrow> ''downloading'' | Some s \<Rightarrow> s);
          filename0 =
            (case ev_filename d of
               None \<Rightarrow> ''?''
             | Some f \<Rightarrow>
                 if f \<noteq> [] then f
                 else (case ev_title d of None \<Rightarrow> ''?'' | Some t \<Rightarrow> t));
          filename =
            (if CHR ''/'' \<in> set filename0 then last (split_on (CHR ''/'') filename0)
             else filename0);
          w1 = (case svc_progress_callback svc of
                  None \<Rightarrow> w
                | Some cb \<Rightarrow> w\<lparr>w_log := w_log w @ cb cur total_n filename status\<rparr>)
      in if status = ''finished'' then log_call INFO ''Finished: %s'' [AStr filename] w1
         else if status = ''downloading'' \<and> ev_percent d \<noteq> None \<and> ev_percent d \<noteq> Some []
         then log_call DEBUG ''Progress: %s %s''
                [AStr filename, AStr (case ev_percent d of None \<Rightarrow> [] | Some s \<Rightarrow> s)] w1
         else w1)"

definition get_playlist_info :: "env \<Rightarrow> string \<Rightarrow> world \<Rightarrow> info_dict option \<times> world" where
  "get_playlist_info e url w =
     (let w1 = w\<lparr>w_net := w_net w @ [ExtractInfo url]\<rparr>
      in case extract_info e url of
           Inr info \<Rightarrow> (info, w1)
         | Inl (DownloadError m) \<Rightarrow>
             (None, log_call ERROR ''Failed to fetch playlist info: %s'' [AErr (DownloadError m)] w1)
         | Inl err \<Rightarrow>
             (None, log_call ERROR ''Unexpected error fetching info: %s'' [AErr err] w1))"

text \<open>\<open>not info\<close>: the info is \<open>None\<close> or a dict without keys.\<close>

definition info_falsy :: "info_dict option \<Rightarrow> bool" where
  "info_falsy info =
     (case info of
        None \<Rightarrow> True
      | Some i \<Rightarrow> info_entries i = Absent \<and> info_other i = [])"

text \<open>\<open>info.get("entries") or []\<close>.\<close>

definition entries_of :: "info_dict \<Rightarrow> entry option list" where
  "entries_of i = (case info_entries i of Present es \<Rightarrow> es | _ \<Rightarrow> [])"

text \<open>
  The item total of \<open>download\<close>: 1 for no entries, else the number of entries that
  pass \<open>if e\<close>, which the entries other than \<open>None\<close> do.
\<close>

definition derive_total :: "info_dict \<Rightarrow> int" where
  "derive_total i =
     (let entries = entries_of i
      in if entries = [] then 1
         else int (length (filter (\<lambda>en. en \<noteq> None) entries)))"

text \<open>The two one-element lists that the closure \<open>progress_hook\<close> mutates.\<close>

record counters =
  success_count :: int
  current :: int

definition progress_hook :: "service \<Rightarrow> int \<Rightarrow> event \<Rightarrow> counters \<times> world \<Rightarrow> counters \<times> world" where
  "progress_hook svc total_n d cw =
     (let (c, w) = cw;
          status = (case ev_status d of None \<Rightarrow> [] | Some s \<Rightarrow> s);
          c1 = (if status = ''finished'' then c\<lparr>success_count := success_count c + 1\<rparr> else c);
          c2 = (if status = ''downloading'' then c1\<lparr>current := success_count c1 + 1\<rparr>
                else if status = ''finished'' then c1\<lparr>current := success_count c1\<rparr>
                else c1)
      in (c2, progress_hook_inner svc d (current c2) (Some total_n) w))"

text \<open>The library calls the hook on each event in turn.\<close>

fun run_hooks :: "service \<Rightarrow> int \<Rightarrow> event list \<Rightarrow> counters \<times> world \<Rightarrow> counters \<times> world" where
  "run_hooks svc total_n [] cw = cw"
| "run_hooks svc total_n (d # ds) cw = run_hooks svc total_n ds (progress_hook svc total_n d cw)"

definition download :: "env \<Rightarrow> service \<Rightarrow> string \<Rightarrow> world \<Rightarrow> (error + int \<times> int) \<times> world" where
  "download e svc url w =
     (case (if \<not> svc_download_video svc then check_ffmpeg e else Inr ()) of
        Inl err \<Rightarrow> (Inl err, w)
      | Inr _ \<Rightarrow>
          (let (info, w1) = get_playlist_info e url w
           in case (if info_falsy info then None else info) of
                None \<Rightarrow>
                  (Inr (0, 0), log_call ERROR ''Invalid or inaccessible URL: %s'' [AStr url] w1)
              | Some i \<Rightarrow>
                       (let total_n = derive_total i;
                            w2 = log_call INFO ''Total items to process: %s'' [AInt total_n] w1;
                            is_playlist = (total_n > 1);
                            opts = build_opts svc is_playlist;
                            w3 = w2\<lparr>w_net := w_net w2 @ [YdlDownload opts url]\<rparr>;
                            (events, raised) = ydl_download e opts url;
                            (c, w4) = run_hooks svc total_n events
                                        (\<lparr>success_count = 0, current = 0\<rparr>, w3);
                            w5 = (case raised of
                                    None \<Rightarrow> w4
                                  | Some (DownloadError m) \<Rightarrow>
                                      log_call ERROR ''Download error: %s'' [AErr (DownloadError m)] w4
                                  | Some err \<Rightarrow>
                                      log_call ERROR ''Download failed: %s'' [AErr err] w4);
                            failures = total_n - success_count c
                        in (Inr (success_count c, failures), w5))))"

text \<open>The number of events with status \<open>finished\<close> that the hook is called on.\<close>

definition finished_count :: "event list \<Rightarrow> int" where
  "finished_count ds = int (length (filter (\<lambda>d. ev_status d = Some ''finished'') ds))"

text \<open>
  What \<open>str\<close> puts before the name of a file that lies directly in directory \<open>d\<close>.
\<close>

definition dir_prefix :: "pypath \<Rightarrow> string" where
  "dir_prefix d =
     p_root d @ (if p_parts d = [] then [] else join_with ''/'' (p_parts d) @ ''/'')"

section \<open>main.py\<close>

record args =
  arg_url :: "string option"
  arg_output :: "string option"
  arg_video :: bool
  arg_verbose :: bool

text \<open>The dash of the two progress formats, U+2014 in UTF-8.\<close>

definition EM_DASH :: string where
  "EM_DASH = [CHR 0xE2, CHR 0x80, CHR 0x94]"

definition get_user_input :: "env \<Rightarrow> string \<Rightarrow> string option \<Rightarrow> string" where
  "get_user_input e prompt default_value =
     (let dflt = (case default_value of None \<Rightarrow> [] | Some d \<Rightarrow> d)
      in case stdin_line e of
           None \<Rightarrow> dflt
         | Some line \<Rightarrow> (let v = strip line in if v \<noteq> [] then v else dflt))"

text \<open>The callback that \<open>run_download\<close> hands to the service.\<close>

definition cli_progress_callback :: progress_callback where
  "cli_progress_callback cur total_n filename status =
     (case total_n of
        Some t \<Rightarrow>
          if t > 0
          then [(INFO, ''[%d/%d] %s '' @ EM_DASH @ '' %s'',
                 [AInt cur, AInt t, AStr status, AStr filename])]
          else [(INFO, ''%s '' @ EM_DASH @ '' %s'', [AStr status, AStr filename])]
      | None \<Rightarrow> [(INFO, ''%s '' @ EM_DASH @ '' %s'', [AStr status, AStr filename])])"

text \<open>
  \<open>run_download\<close>: \<open>Inr\<close> is the exit code it returns, \<open>Inl\<close> an exception it does
  not catch.
\<close>

definition run_download :: "env \<Rightarrow> string \<Rightarrow> pypath \<Rightarrow> bool \<Rightarrow> world \<Rightarrow> (error + int) \<times> world" where
  "run_download e url output_dir download_video w =
     (case new_service e output_dir download_video (Some cli_progress_callback) w of
        (Inl err, w1) \<Rightarrow> (Inl err, w1)
      | (Inr svc, w1) \<Rightarrow>
          (case download e svc url w1 of
             (Inl (RuntimeError m), w2) \<Rightarrow>
               (Inr 1, log_call ERROR ''%s'' [AErr (RuntimeError m)] w2)
           | (Inl err, w2) \<Rightarrow> (Inl err, w2)
           | (Inr (success, failure), w2) \<Rightarrow>
               (Inr (if failure = 0 then 0 else 1),
                log_call INFO ''Done. Success: %d, Failed: %d'' [AInt success, AInt failure] w2)))"

definition main :: "env \<Rightarrow> args \<Rightarrow> world \<Rightarrow> (error + int) \<times> world" where
  "main e a w =
     (let url = (case arg_url a of
                   None \<Rightarrow> get_user_input e ''YouTube playlist or video URL'' None
                 | Some u \<Rightarrow>
                     if u \<noteq> [] then u
                     else get_user_input e ''YouTube playlist or video URL'' None)
      in if url = [] then (Inr 1, log_call ERROR ''No URL provided.'' [] w)
         else if \<not> is_valid_youtube_url (PyStr url)
         then (Inr 1, log_call ERROR ''Invalid YouTube URL: %s'' [AStr url] w)
         else (case (case arg_output a of
                       None \<Rightarrow> (get_default_output_dir e, w)
                     | Some out \<Rightarrow>
                         if out \<noteq> [] then normalize_output_path e out w
                         else (get_default_output_dir e, w)) of
                 (Inl err, w1) \<Rightarrow> (Inl err, w1)
               | (Inr output_dir, w1) \<Rightarrow>
                   (case ensure_output_dir e output_dir w1 of
                      (Inl (OSError m), w2) \<Rightarrow>
                        (Inr 1, log_call ERROR ''Cannot create output folder %s: %s''
                                  [AStr (path_str output_dir), AErr (OSError m)] w2)
                    | (Inl err, w2) \<Rightarrow> (Inl err, w2)
                    | (Inr _, w2) \<Rightarrow>
                        (let w3 = log_call INFO ''URL: %s'' [AStr url] w2;
                             w4 = log_call INFO ''Output: %s | Mode: %s''
                                    [AStr (path_str output_dir),
                                     AStr (if arg_video a then ''video'' else ''audio (WAV)'')] w3
                         in run_download e url output_dir (arg_video a) w4))))"

section \<open>Sample inputs\<close>

text \<open>
  Concrete environments, metadata and events on which the statements below are evaluated.
\<close>

text \<open>
  \<open>realpath\<close> on a file system without symbolic links and with current directory
  \<open>dir\<close>: a relative path is taken from the current directory and \<open>..\<close> removes the
  component before it, staying at the root there.
\<close>

fun collapse :: "string list \<Rightarrow> string list \<Rightarrow> string list" where
  "collapse acc [] = acc"
| "collapse acc (x # xs) =
     (if x = ''..'' then collapse (butlast acc) xs else collapse (acc @ [x]) xs)"

definition lexical_realpath :: "string list \<Rightarrow> string \<Rightarrow> error + string" where
  "lexical_realpath dir s =
     (let p = parse_path s
      in Inr (path_str \<lparr>p_root = ''/'',
                      p_parts = collapse [] ((if p_root p \<noteq> [] then [] else dir) @ p_parts p)\<rparr>))"

definition sample_env ::
  "string option \<Rightarrow> (error + info_dict option) \<Rightarrow> event list \<Rightarrow> error option \<Rightarrow> env" where
  "sample_env ff meta evs raised =
     \<lparr>which_ffmpeg = ff,
      extract_info = (\<lambda>u. meta),
      ydl_download = (\<lambda>opts u. (evs, raised)),
      home_of = (\<lambda>u. if u = [] then Some ''/home/user'' else None),
      realpath = lexical_realpath [''work''],
      module_file = ''/app/downloader/config.py'',
      mkdir_permitted = (\<lambda>p. True),
      stdin_line = None\<rparr>"

definition sample_entry :: "entry option" where
  "sample_entry = Some \<lparr>entry_id = ''id'', entry_title = ''title''\<rparr>"

definition sample_info :: "entry option list \<Rightarrow> info_dict" where
  "sample_info es = \<lparr>info_entries = Present es, info_other = [(''title'', ''T'')]\<rparr>"

definition sample_event :: "string \<Rightarrow> event" where
  "sample_event st =
     \<lparr>ev_status = Some st, ev_filename = Some ''/out/a.webm'', ev_title = None,
      ev_percent = None\<rparr>"

definition sample_service :: "bool \<Rightarrow> service" where
  "sample_service video =
     \<lparr>svc_output_dir = \<lparr>p_root = ''/'', p_parts = [''out'']\<rparr>,
      svc_download_video = video,
      svc_progress_callback = Some cli_progress_callback\<rparr>"

definition empty_world :: world where
  "empty_world = \<lparr>w_log = [], w_net = [], w_dirs = []\<rparr>"

definition sample_args :: "string \<Rightarrow> string option \<Rightarrow> args" where
  "sample_args url out =
     \<lparr>arg_url = Some url, arg_output = out, arg_video = False, arg_verbose = False\<rparr>"

section \<open>Facts about paths, options and the download\<close>

lemma parse_templates:
  "parse_path OUTPUT_TEMPLATE = \<lparr>p_root = [], p_parts = [''%(playlist_title)s'', ''%(title)s.%(ext)s'']\<rparr>"
  "parse_path SINGLE_VIDEO_TEMPLATE = \<lparr>p_root = [], p_parts = [''%(title)s.%(ext)s'']\<rparr>"
  "parse_path OUTPUT_TEMPLATE_WAV = \<lparr>p_root = [], p_parts = [''%(playlist_title)s'', ''%(title)s.wav'']\<rparr>"
  "parse_path SINGLE_VIDEO_TEMPLATE_WAV = \<lparr>p_root = [], p_parts = [''%(title)s.wav'']\<rparr>"
  by code_simp+

lemma join_with_snoc:
  "join_with sep (xs @ [y]) = (if xs = [] then y else join_with sep xs @ sep @ y)"
  by (induction sep xs rule: join_with.induct) auto

lemma path_str_join1:
  "parse_path t = \<lparr>p_root = [], p_parts = [f]\<rparr> \<Longrightarrow> f \<noteq> [] \<Longrightarrow>
   path_str (path_join d t) = dir_prefix d @ f"
  by (simp add: path_str_def path_join_def dir_prefix_def Let_def join_with_snoc)

lemma path_str_join2:
  assumes a: "parse_path t = \<lparr>p_root = [], p_parts = [g, f]\<rparr>" and f: "f \<noteq> []"
  shows "path_str (path_join d t) = dir_prefix d @ g @ ''/'' @ f"
proof -
  have "p_parts d @ [g, f] = (p_parts d @ [g]) @ [f]" by simp
  then have "join_with ''/'' (p_parts d @ [g, f]) = join_with ''/'' (p_parts d @ [g]) @ ''/'' @ f"
    by (metis join_with_snoc snoc_eq_iff_butlast)
  then show ?thesis using a f
    by (simp add: path_str_def path_join_def dir_prefix_def Let_def join_with_snoc)
qed

lemma build_opts_outtmpl:
  "opt_outtmpl (build_opts svc pl) =
     dir_prefix (svc_output_dir svc) @ (if pl then ''%(playlist_title)s/'' else [])
       @ (if svc_download_video svc then ''%(title)s.%(ext)s'' else ''%(title)s.wav'')"
  by (simp add: build_opts_def Let_def path_str_join1 path_str_join2 parse_templates)

lemma progress_hook_success:
  "success_count (fst (progress_hook svc t d cw)) =
     success_count (fst cw) + (if ev_status d = Some ''finished'' then 1 else 0)"
  by (cases cw) (auto simp: progress_hook_def Let_def split: option.splits)

lemma progress_hook_inner_net: "w_net (progress_hook_inner svc d cur t w) = w_net w"
  by (simp add: progress_hook_inner_def Let_def log_call_def split: option.splits)

lemma progress_hook_net: "w_net (snd (progress_hook svc t d cw)) = w_net (snd cw)"
  by (cases cw) (simp add: progress_hook_def Let_def progress_hook_inner_net)

lemma run_hooks_success:
  "success_count (fst (run_hooks svc t ds cw)) = success_count (fst cw) + finished_count ds"
  by (induction ds arbitrary: cw) (simp_all add: finished_count_def progress_hook_success)

lemma run_hooks_net: "w_net (snd (run_hooks svc t ds cw)) = w_net (snd cw)"
  by (induction ds arbitrary: cw) (simp_all add: progress_hook_net)

lemma download_no_ffmpeg:
  "\<not> svc_download_video svc \<Longrightarrow> which_ffmpeg e = None \<Longrightarrow>
   download e svc url w = (Inl (RuntimeError FFMPEG_MISSING), w)"
  by (simp add: download_def check_ffmpeg_def)

lemma get_playlist_info_fst:
  "fst (get_playlist_info e url w) = (case extract_info e url of Inl err \<Rightarrow> None | Inr info \<Rightarrow> info)"
  by (simp add: get_playlist_info_def Let_def split: sum.splits error.splits)

lemma get_playlist_info_net:
  "w_net (snd (get_playlist_info e url w)) = w_net w @ [ExtractInfo url]"
  by (simp add: get_playlist_info_def Let_def log_call_def split: sum.splits error.splits)

lemma get_playlist_info_raise_log:
  "extract_info e url = Inl err \<Longrightarrow>
   \<exists>fmt. w_log (snd (get_playlist_info e url w)) = w_log w @ [(ERROR, fmt, [AErr err])]"
  by (cases err) (simp_all add: get_playlist_info_def Let_def log_call_def)

lemma download_abort:
  assumes "svc_download_video svc \<or> which_ffmpeg e \<noteq> None"
    and "info_falsy (fst (get_playlist_info e url w))"
  shows "download e svc url w =
           (Inr (0, 0), log_call ERROR ''Invalid or inaccessible URL: %s'' [AStr url]
                          (snd (get_playlist_info e url w)))"
  using assms by (auto simp: download_def check_ffmpeg_def Let_def split: prod.splits)

lemma download_run:
  assumes pre: "svc_download_video svc \<or> which_ffmpeg e \<noteq> None"
    and meta: "extract_info e url = Inr (Some i)" "\<not> info_falsy (Some i)"
    and run: "ydl_download e (build_opts svc (1 < derive_total i)) url = (events, raised)"
  shows "fst (download e svc url w) =
           Inr (finished_count events, derive_total i - finished_count events)"
    and "w_net (snd (download e svc url w)) =
           w_net w @ [ExtractInfo url, YdlDownload (build_opts svc (1 < derive_total i)) url]"
    and "raised = Some err \<Longrightarrow>
           \<exists>fmt. last (w_log (snd (download e svc url w))) = (ERROR, fmt, [AErr err])"
proof -
  define w1 where "w1 = snd (get_playlist_info e url w)"
  have g: "get_playlist_info e url w = (Some i, w1)"
    using meta(1) get_playlist_info_fst[of e url w] by (simp add: w1_def prod_eq_iff)
  have n1: "w_net w1 = w_net w @ [ExtractInfo url]"
    by (simp add: w1_def get_playlist_info_net)
  define w2 where "w2 = log_call INFO ''Total items to process: %s'' [AInt (derive_total i)] w1"
  define w3 where "w3 = w2\<lparr>w_net := w_net w2 @ [YdlDownload (build_opts svc (1 < derive_total i)) url]\<rparr>"
  obtain c w4 where r: "run_hooks svc (derive_total i) events (\<lparr>success_count = 0, current = 0\<rparr>, w3) = (c, w4)"
    by (cases "run_hooks svc (derive_total i) events (\<lparr>success_count = 0, current = 0\<rparr>, w3)") simp
  have sc: "success_count c = finished_count events"
    using run_hooks_success[of svc "derive_total i" events "(\<lparr>success_count = 0, current = 0\<rparr>, w3)"] r
    by simp
  have n4: "w_net w4 = w_net w @ [ExtractInfo url, YdlDownload (build_opts svc (1 < derive_total i)) url]"
    using run_hooks_net[of svc "derive_total i" events "(\<lparr>success_count = 0, current = 0\<rparr>, w3)"] r n1
    by (simp add: w3_def w2_def log_call_def)
  define w5 where "w5 = (case raised of None \<Rightarrow> w4
      | Some (DownloadError m) \<Rightarrow> log_call ERROR ''Download error: %s'' [AErr (DownloadError m)] w4
      | Some err \<Rightarrow> log_call ERROR ''Download failed: %s'' [AErr err] w4)"
  have d: "download e svc url w = (Inr (success_count c, derive_total i - success_count c), w5)"
    using pre meta(2) run g r
    by (auto simp: download_def check_ffmpeg_def Let_def w5_def w3_def w2_def split: prod.splits)
  show "fst (download e svc url w) =
           Inr (finished_count events, derive_total i - finished_count events)"
    using d sc by simp
  show "w_net (snd (download e svc url w)) =
           w_net w @ [ExtractInfo url, YdlDownload (build_opts svc (1 < derive_total i)) url]"
    using d n4 by (simp add: w5_def log_call_def split: option.splits error.splits)
  show "\<exists>fmt. last (w_log (snd (download e svc url w))) = (ERROR, fmt, [AErr err])"
    if "raised = Some err"
    using d that by (cases err) (simp_all add: w5_def log_call_def)
qed


lemma download_uses_total_only:
  assumes "extract_info e url = Inr (Some i)" and "\<not> info_falsy (Some i)"
    and "\<not> info_falsy (Some i')" and "derive_total i' = derive_total i"
  shows "download (e\<lparr>extract_info := (\<lambda>u. Inr (Some i'))\<rparr>) svc url w = download e svc url w"
proof -
  have g: "get_playlist_info e url w = (Some i, w\<lparr>w_net := w_net w @ [ExtractInfo url]\<rparr>)"
    using assms(1) by (simp add: get_playlist_info_def)
  have g': "get_playlist_info (e\<lparr>extract_info := (\<lambda>u. Inr (Some i'))\<rparr>) url w
              = (Some i', w\<lparr>w_net := w_net w @ [ExtractInfo url]\<rparr>)"
    by (simp add: get_playlist_info_def)
  show ?thesis
    using assms(2-4) by (simp add: download_def g g' check_ffmpeg_def Let_def)
qed











text \<open>
  Claim C3. When the prerequisite check passes and the metadata is there, \<open>download\<close>
  returns the number \<open>s\<close> of \<open>finished\<close> events the hook saw and \<open>n - s\<close> for the
  derived total \<open>n\<close>, whether the library's download returned or raised; an exception
  it raised is the last entry of the log, at level ERROR, and is not propagated.
\<close>
theorem download_counts_finished:
  assumes "svc_download_video svc \<or> which_ffmpeg e \<noteq> None"
    and "extract_info e url = Inr (Some i)" and "\<not> info_falsy (Some i)"
    and "ydl_download e (build_opts svc (1 < derive_total i)) url = (events, raised)"
  shows "fst (download e svc url w) =
           Inr (finished_count events, derive_total i - finished_count events)
         \<and> (\<forall>err. raised = Some err \<longrightarrow>
               (\<exists>fmt. last (w_log (snd (download e svc url w))) = (ERROR, fmt, [AErr err])))"
  using download_run(1,3) [OF assms] by blast

text \<open>Three finished events in a batch of five, then a download error: the result is (3, 2).\<close>
theorem download_counts_finished_witness:
  "fst (download
          (sample_env (Some ''/usr/bin/ffmpeg'')
             (Inr (Some (sample_info (replicate 5 sample_entry))))
             [sample_event ''downloading'', sample_event ''finished'', sample_event ''finished'',
              sample_event ''downloading'', sample_event ''finished'']
             (Some (DownloadError ''network unreachable'')))
          (sample_service False) ''https://youtu.be/x'' empty_world) = Inr (3, 2)"
  using download_counts_finished
    [of "sample_service False"
        "sample_env (Some ''/usr/bin/ffmpeg'')
             (Inr (Some (sample_info (replicate 5 sample_entry))))
             [sample_event ''downloading'', sample_event ''finished'', sample_event ''finished'',
              sample_event ''downloading'', sample_event ''finished'']
             (Some (DownloadError ''network unreachable''))"
        "''https://youtu.be/x''" "sample_info (replicate 5 sample_entry)"
        "[sample_event ''downloading'', sample_event ''finished'', sample_event ''finished'',
              sample_event ''downloading'', sample_event ''finished'']"
        "Some (DownloadError ''network unreachable'')" empty_world]
  by (simp add: sample_env_def sample_service_def sample_info_def sample_entry_def
        sample_event_def info_falsy_def derive_total_def entries_of_def finished_count_def
        numeral_eq_Suc)

lemma download_error_is_ffmpeg:
  "fst (download e svc url w) = Inl err \<Longrightarrow>
     err = RuntimeError FFMPEG_MISSING \<and> \<not> svc_download_video svc \<and> which_ffmpeg e = None"
  by (auto simp: download_def check_ffmpeg_def Let_def split: if_splits prod.splits option.splits)

lemma download_video_returns:
  assumes "svc_download_video svc"
  shows "\<exists>s f. fst (download e svc url w) = Inr (s, f)"
proof (cases "fst (download e svc url w)")
  case (Inl err)
  with download_error_is_ffmpeg [OF Inl] assms show ?thesis by simp
next
  case (Inr sf)
  then show ?thesis by (cases sf) simp
qed

lemma download_video_fetches:
  assumes "svc_download_video svc"
  shows "prefix (w_net w @ [ExtractInfo url]) (w_net (snd (download e svc url w)))"
proof (cases "info_falsy (fst (get_playlist_info e url w))")
  case True
  from download_abort [OF _ True, of svc] assms
  show ?thesis by (simp add: log_call_def get_playlist_info_net)
next
  case False
  then obtain i where i: "extract_info e url = Inr (Some i)" "\<not> info_falsy (Some i)"
    by (auto simp: get_playlist_info_fst info_falsy_def split: sum.splits option.splits)
  obtain events raised
    where r: "ydl_download e (build_opts svc (1 < derive_total i)) url = (events, raised)"
    by (cases "ydl_download e (build_opts svc (1 < derive_total i)) url") simp
  from download_run(2) [OF _ i r, of w] assms
  show ?thesis by (simp add: prefix_def)
qed

text \<open>
  Claim C5. In audio mode without ffmpeg on the path, \<open>download\<close> raises RuntimeError
  with the installation hint and leaves the world as it was: no library call has been
  made and nothing logged. In video mode the check is not made: \<open>download\<close> never
  raises, it makes the metadata query whether ffmpeg is there or not, and without ffmpeg
  it goes on to the library's download and returns the counts as it does with ffmpeg.
\<close>
theorem ffmpeg_check_first_audio_only:
  "(\<not> svc_download_video svc \<and> which_ffmpeg e = None \<longrightarrow>
      download e svc url w = (Inl (RuntimeError FFMPEG_MISSING), w))
   \<and> (svc_download_video svc \<longrightarrow>
      download (e\<lparr>which_ffmpeg := None\<rparr>) svc url w = download e svc url w)
   \<and> (svc_download_video svc \<longrightarrow>
      (\<exists>s f. fst (download e svc url w) = Inr (s, f))
      \<and> prefix (w_net w @ [ExtractInfo url]) (w_net (snd (download e svc url w))))
   \<and> (svc_download_video svc \<and> which_ffmpeg e = None
       \<and> extract_info e url = Inr (Some i) \<and> \<not> info_falsy (Some i)
       \<and> ydl_download e (build_opts svc (1 < derive_total i)) url = (events, raised) \<longrightarrow>
      fst (download e svc url w)
        = Inr (finished_count events, derive_total i - finished_count events)
      \<and> w_net (snd (download e svc url w))
        = w_net w @ [ExtractInfo url, YdlDownload (build_opts svc (1 < derive_total i)) url])"
proof -
  have g: "get_playlist_info (e\<lparr>which_ffmpeg := None\<rparr>) url w = get_playlist_info e url w"
    by (simp add: get_playlist_info_def)
  have eq: "svc_download_video svc \<Longrightarrow>
          download (e\<lparr>which_ffmpeg := None\<rparr>) svc url w = download e svc url w"
    by (simp add: download_def g Let_def split: prod.splits option.splits)
  have run: "fst (download e svc url w)
        = Inr (finished_count events, derive_total i - finished_count events)
      \<and> w_net (snd (download e svc url w))
        = w_net w @ [ExtractInfo url, YdlDownload (build_opts svc (1 < derive_total i)) url]"
    if "svc_download_video svc" "extract_info e url = Inr (Some i)" "\<not> info_falsy (Some i)"
       "ydl_download e (build_opts svc (1 < derive_total i)) url = (events, raised)"
    using download_run(1,2) [OF _ that(2,3,4), of w] that(1) by simp
  show ?thesis
    using eq run download_video_returns [of svc e url w] download_video_fetches [of svc w url e]
    by (simp add: download_no_ffmpeg)
qed

text \<open>
  Without ffmpeg, audio mode raises at once; video mode makes both library calls and
  returns (1, 0), as it does with ffmpeg.
\<close>
theorem ffmpeg_check_first_audio_only_witness:
  "download (sample_env None (Inr (Some (sample_info [sample_entry]))) [sample_event ''finished''] None)
     (sample_service False) ''https://youtu.be/x'' empty_world
     = (Inl (RuntimeError FFMPEG_MISSING), empty_world)
   \<and> download (sample_env None (Inr (Some (sample_info [sample_entry]))) [sample_event ''finished''] None)
       (sample_service True) ''https://youtu.be/x'' empty_world
     = download (sample_env (Some ''/usr/bin/ffmpeg'') (Inr (Some (sample_info [sample_entry]))) [sample_event ''finished''] None)
       (sample_service True) ''https://youtu.be/x'' empty_world
   \<and> fst (download (sample_env None (Inr (Some (sample_info [sample_entry]))) [sample_event ''finished''] None)
       (sample_service True) ''https://youtu.be/x'' empty_world) = Inr (1, 0)
   \<and> w_net (snd (download (sample_env None (Inr (Some (sample_info [sample_entry]))) [sample_event ''finished''] None)
       (sample_service True) ''https://youtu.be/x'' empty_world))
     = [ExtractInfo ''https://youtu.be/x'',
        YdlDownload (build_opts (sample_service True) False) ''https://youtu.be/x'']"
  using ffmpeg_check_first_audio_only
    [where svc = "sample_service False"
       and e = "sample_env None (Inr (Some (sample_info [sample_entry]))) [sample_event ''finished''] None"
       and url = "''https://youtu.be/x''" and w = empty_world]
   ffmpeg_check_first_audio_only
    [where svc = "sample_service True"
       and e = "sample_env (Some ''/usr/bin/ffmpeg'') (Inr (Some (sample_info [sample_entry]))) [sample_event ''finished''] None"
       and url = "''https://youtu.be/x''" and w = empty_world]
   ffmpeg_check_first_audio_only
    [where svc = "sample_service True"
       and e = "sample_env None (Inr (Some (sample_info [sample_entry]))) [sample_event ''finished''] None"
       and url = "''https://youtu.be/x''" and w = empty_world
       and i = "sample_info [sample_entry]" and events = "[sample_event ''finished'']" and raised = None]
  by (simp add: sample_env_def sample_service_def sample_info_def sample_entry_def
        sample_event_def info_falsy_def derive_total_def entries_of_def finished_count_def
        empty_world_def)

text \<open>
  Claim C6. When the metadata query raises, \<open>get_playlist_info\<close> returns \<open>None\<close> and
  logs the exception at level ERROR. When the metadata is \<open>None\<close> or an empty dict,
  \<open>download\<close> returns (0, 0), and the metadata query is the only library call made.
\<close>
theorem metadata_failure_aborts:
  "(\<forall>err. extract_info e url = Inl err \<longrightarrow>
      fst (get_playlist_info e url w) = None
      \<and> (\<exists>fmt. w_log (snd (get_playlist_info e url w)) = w_log w @ [(ERROR, fmt, [AErr err])]))
   \<and> ((svc_download_video svc \<or> which_ffmpeg e \<noteq> None)
        \<and> info_falsy (fst (get_playlist_info e url w)) \<longrightarrow>
      fst (download e svc url w) = Inr (0, 0)
      \<and> w_net (snd (download e svc url w)) = w_net w @ [ExtractInfo url])"
proof (intro conjI allI impI)
  fix err assume a: "extract_info e url = Inl err"
  show "fst (get_playlist_info e url w) = None"
    by (simp add: get_playlist_info_fst a)
  show "\<exists>fmt. w_log (snd (get_playlist_info e url w)) = w_log w @ [(ERROR, fmt, [AErr err])]"
    by (rule get_playlist_info_raise_log [OF a])
next
  assume b: "(svc_download_video svc \<or> which_ffmpeg e \<noteq> None)
        \<and> info_falsy (fst (get_playlist_info e url w))"
  then have d: "download e svc url w =
           (Inr (0, 0), log_call ERROR ''Invalid or inaccessible URL: %s'' [AStr url]
                          (snd (get_playlist_info e url w)))"
    using download_abort by blast
  show "fst (download e svc url w) = Inr (0, 0)" by (simp add: d)
  show "w_net (snd (download e svc url w)) = w_net w @ [ExtractInfo url]"
    by (simp add: d log_call_def get_playlist_info_net)
qed

text \<open>A failed metadata query, and an empty metadata dict: both end in (0, 0).\<close>
theorem metadata_failure_aborts_witness:
  "download (sample_env None (Inl (DownloadError ''HTTP Error 404'')) [sample_event ''finished''] None)
     (sample_service True) ''https://youtu.be/x'' empty_world
   = (Inr (0, 0),
      \<lparr>w_log = [(ERROR, ''Failed to fetch playlist info: %s'', [AErr (DownloadError ''HTTP Error 404'')]),
                (ERROR, ''Invalid or inaccessible URL: %s'', [AStr ''https://youtu.be/x''])],
       w_net = [ExtractInfo ''https://youtu.be/x''], w_dirs = []\<rparr>)
   \<and> fst (download (sample_env None (Inr (Some \<lparr>info_entries = Absent, info_other = []\<rparr>)) [sample_event ''finished''] None)
     (sample_service True) ''https://youtu.be/x'' empty_world) = Inr (0, 0)"
  using metadata_failure_aborts
    [of "sample_env None (Inl (DownloadError ''HTTP Error 404'')) [sample_event ''finished''] None"
        "''https://youtu.be/x''" empty_world "sample_service True"]
    metadata_failure_aborts
    [of "sample_env None (Inr (Some \<lparr>info_entries = Absent, info_other = []\<rparr>)) [sample_event ''finished''] None"
        "''https://youtu.be/x''" empty_world "sample_service True"]
  by (simp add: sample_env_def sample_service_def download_def get_playlist_info_def
        info_falsy_def log_call_def empty_world_def)


text \<open>
  Claim C7. In audio mode the format is the best-audio selector, the output template ends
  in \<open>.wav\<close>, and the post-processing fixes WAV at 44100 Hz, 2 channels, 16-bit PCM.
  In video mode the format is the best-video-plus-best-audio selector, the template ends
  in the generic extension template, and no post-processor is attached.
\<close>
theorem build_opts_modes:
  "opt_format (build_opts \<lparr>svc_output_dir = d, svc_download_video = False,
                             svc_progress_callback = cb\<rparr> pl) = ''bestaudio/best''
   \<and> suffix ''.wav'' (opt_outtmpl (build_opts \<lparr>svc_output_dir = d, svc_download_video = False,
                             svc_progress_callback = cb\<rparr> pl))
   \<and> opt_postprocessors (build_opts \<lparr>svc_output_dir = d, svc_download_video = False,
                             svc_progress_callback = cb\<rparr> pl)
       = Some [\<lparr>pp_key = ''FFmpegExtractAudio'', pp_preferredcodec = ''wav''\<rparr>]
   \<and> opt_postprocessor_args (build_opts \<lparr>svc_output_dir = d, svc_download_video = False,
                             svc_progress_callback = cb\<rparr> pl)
       = Some [(''extractaudio+ffmpeg'',
                [''-ar'', ''44100'', ''-ac'', ''2'', ''-acodec'', ''pcm_s16le''])]
   \<and> opt_format (build_opts \<lparr>svc_output_dir = d, svc_download_video = True,
                             svc_progress_callback = cb\<rparr> pl) = ''bestvideo+bestaudio/best''
   \<and> suffix ''%(title)s.%(ext)s''
        (opt_outtmpl (build_opts \<lparr>svc_output_dir = d, svc_download_video = True,
                             svc_progress_callback = cb\<rparr> pl))
   \<and> opt_postprocessors (build_opts \<lparr>svc_output_dir = d, svc_download_video = True,
                             svc_progress_callback = cb\<rparr> pl) = None
   \<and> opt_postprocessor_args (build_opts \<lparr>svc_output_dir = d, svc_download_video = True,
                             svc_progress_callback = cb\<rparr> pl) = None"
proof -
  have "suffix ''.wav'' (opt_outtmpl (build_opts \<lparr>svc_output_dir = d, svc_download_video = False,
                             svc_progress_callback = cb\<rparr> pl))"
    unfolding build_opts_outtmpl suffix_def
    by (rule exI [of _ "dir_prefix d @ (if pl then ''%(playlist_title)s/'' else []) @ ''%(title)s''"]) simp
  moreover have "suffix ''%(title)s.%(ext)s''
        (opt_outtmpl (build_opts \<lparr>svc_output_dir = d, svc_download_video = True,
                             svc_progress_callback = cb\<rparr> pl))"
    unfolding build_opts_outtmpl suffix_def
    by (rule exI [of _ "dir_prefix d @ (if pl then ''%(playlist_title)s/'' else [])"]) simp
  ultimately show ?thesis
    by (simp add: build_opts_def Let_def FFMPEG_EXTRACT_AUDIO_def)
qed

text \<open>
  Claim C9. The options that \<open>download\<close> hands to the library are built with the
  playlist flag \<open>1 < total\<close>: the output template has the playlist-title folder between
  the output directory and the file name exactly when the derived total exceeds 1, and
  otherwise names the file directly in the output directory.
\<close>
theorem playlist_layout_iff_many:
  assumes "svc_download_video svc \<or> which_ffmpeg e \<noteq> None"
    and "extract_info e url = Inr (Some i)" and "\<not> info_falsy (Some i)"
  shows "\<exists>opts. w_net (snd (download e svc url w)) = w_net w @ [ExtractInfo url, YdlDownload opts url]
           \<and> opts = build_opts svc (1 < derive_total i)
           \<and> opt_outtmpl opts =
               dir_prefix (svc_output_dir svc)
               @ (if 1 < derive_total i then ''%(playlist_title)s/'' else [])
               @ (if svc_download_video svc then ''%(title)s.%(ext)s'' else ''%(title)s.wav'')"
proof -
  obtain events raised
    where "ydl_download e (build_opts svc (1 < derive_total i)) url = (events, raised)"
    by (cases "ydl_download e (build_opts svc (1 < derive_total i)) url") simp
  from download_run(2) [OF assms this]
  show ?thesis by (simp add: build_opts_outtmpl)
qed

text \<open>A playlist with one available entry gets the single-video template.\<close>
theorem playlist_layout_iff_many_witness:
  "w_net (snd (download
      (sample_env None (Inr (Some (sample_info [None, sample_entry]))) [sample_event ''finished''] None)
      (sample_service True) ''https://www.youtube.com/playlist?list=PL1'' empty_world))
   = [ExtractInfo ''https://www.youtube.com/playlist?list=PL1'',
      YdlDownload (build_opts (sample_service True) False) ''https://www.youtube.com/playlist?list=PL1'']
   \<and> opt_outtmpl (build_opts (sample_service True) False) = ''/out/%(title)s.%(ext)s''"
  using playlist_layout_iff_many
    [of "sample_service True"
        "sample_env None (Inr (Some (sample_info [None, sample_entry]))) [sample_event ''finished''] None"
        "''https://www.youtube.com/playlist?list=PL1''" "sample_info [None, sample_entry]" empty_world]
  by (simp add: sample_env_def sample_service_def sample_info_def sample_entry_def
        info_falsy_def derive_total_def entries_of_def empty_world_def dir_prefix_def)

text \<open>
  Claim C10. With metadata at hand \<open>download\<close> returns a pair \<open>(s, f)\<close> with
  \<open>s + f\<close> the derived total; \<open>f\<close> is negative exactly when the hook saw more
  \<open>finished\<close> events than the total.
\<close>
theorem success_plus_failure_is_total:
  assumes "svc_download_video svc \<or> which_ffmpeg e \<noteq> None"
    and "extract_info e url = Inr (Some i)" and "\<not> info_falsy (Some i)"
    and "ydl_download e (build_opts svc (1 < derive_total i)) url = (events, raised)"
  shows "\<exists>s f. fst (download e svc url w) = Inr (s, f)
           \<and> s = finished_count events
           \<and> s + f = derive_total i
           \<and> (f < 0 \<longleftrightarrow> derive_total i < finished_count events)"
  using download_run(1) [OF assms] by simp

text \<open>Two finished events for a single video: the result is (2, -1).\<close>
theorem success_plus_failure_is_total_witness:
  "fst (download
      (sample_env None (Inr (Some (sample_info []))) [sample_event ''finished'', sample_event ''finished''] None)
      (sample_service True) ''https://youtu.be/x'' empty_world) = Inr (2, - 1)"
  using success_plus_failure_is_total
    [of "sample_service True"
        "sample_env None (Inr (Some (sample_info []))) [sample_event ''finished'', sample_event ''finished''] None"
        "''https://youtu.be/x''" "sample_info []"
        "[sample_event ''finished'', sample_event ''finished'']" None empty_world]
  by (auto simp add: sample_env_def sample_service_def sample_info_def
        sample_event_def info_falsy_def derive_total_def entries_of_def finished_count_def)

section \<open>The validators\<close>

text \<open>
  Claim C8 at a path that names a user without a known home directory:
  \<open>normalize_output_path\<close> raises the RuntimeError of \<open>expanduser\<close> and returns no
  path, and \<open>main\<close>, which calls it outside its \<open>try\<close>, ends with that exception
  and no exit code. A path with a NUL character raises the ValueError of \<open>resolve\<close>.
  With the home of the invoking user known, \<open>~/x\<close> becomes \<open>/home/user/x\<close>.
\<close>
theorem unknown_home_raises:
  "normalize_output_path (sample_env None (Inl (OtherException [])) [] None) ''~nosuchuser/x'' empty_world
     = (Inl (RuntimeError ''Could not determine home directory.''), empty_world)
   \<and> main (sample_env (Some ''/usr/bin/ffmpeg'') (Inr (Some (sample_info [sample_entry])))
             [sample_event ''finished''] None)
          (sample_args ''https://www.youtube.com/watch?v=abc123'' (Some ''~nosuchuser/x'')) empty_world
     = (Inl (RuntimeError ''Could not determine home directory.''), empty_world)
   \<and> normalize_output_path (sample_env None (Inl (OtherException [])) [] None)
         [CHR ''a'', CHR 0x00, CHR ''b''] empty_world
     = (Inl (ValueError ''embedded null byte''), empty_world)
   \<and> normalize_output_path (sample_env None (Inl (OtherException [])) [] None) ''~/x'' empty_world
     = (Inr \<lparr>p_root = ''/'', p_parts = [''home'', ''user'', ''x'']\<rparr>, empty_world)"
  by code_simp

text \<open>
  Claim C4 at a URL whose host is written with capitals: the pattern, matched without
  regard to case, accepts it, and \<open>is_valid_youtube_url\<close> rejects it, while it accepts
  the same URL with the host in lower case, also when the scheme and the \<open>www\<close> prefix
  are in capitals.
\<close>
theorem mixed_case_host_rejected:
  "re_match True YOUTUBE_URL_PATTERN ''https://YouTube.com/watch?v=abc123''
   \<and> \<not> is_valid_youtube_url (PyStr ''https://YouTube.com/watch?v=abc123'')
   \<and> is_valid_youtube_url (PyStr ''https://youtube.com/watch?v=abc123'')
   \<and> is_valid_youtube_url (PyStr ''HTTPS://WWW.youtube.com/watch?v=abc123'')"
  by code_simp

section \<open>The command line\<close>

lemma path_in_chain: "p \<in> set (path_chain p)"
proof -
  have "p = (\<lambda>k. p\<lparr>p_parts := take k (p_parts p)\<rparr>) (length (p_parts p))" by simp
  moreover have "length (p_parts p) \<in> set [0..<Suc (length (p_parts p))]" by simp
  ultimately have "p \<in> (\<lambda>k. p\<lparr>p_parts := take k (p_parts p)\<rparr>) ` set [0..<Suc (length (p_parts p))]"
    by (rule image_eqI)
  then show ?thesis by (simp add: path_chain_def)
qed

lemma ensure_output_dir_result:
  "fst (ensure_output_dir e p w) = Inr d \<Longrightarrow>
     d = p \<and> p \<in> set (w_dirs (snd (ensure_output_dir e p w)))
     \<and> CHR 0x00 \<notin> set (path_str p)"
  using path_in_chain [of p]
  by (auto simp: ensure_output_dir_def split: if_splits)

lemma ensure_output_dir_again:
  assumes "fst (ensure_output_dir e p w) = Inr d"
  shows "ensure_output_dir e p (snd (ensure_output_dir e p w)) = (Inr p, snd (ensure_output_dir e p w))"
proof -
  define w' where "w' = snd (ensure_output_dir e p w)"
  from ensure_output_dir_result [OF assms]
  have "p \<in> set (w_dirs w')" and "CHR 0x00 \<notin> set (path_str p)"
    by (simp_all add: w'_def)
  then have "ensure_output_dir e p w' = (Inr p, w')"
    by (simp add: ensure_output_dir_def)
  then show ?thesis
    by (simp add: w'_def)
qed

lemma ensure_output_dir_error:
  "fst (ensure_output_dir e p w) = Inl err \<Longrightarrow>
     err = OSError ''Permission denied'' \<or> err = ValueError ''embedded null byte''"
  by (auto simp: ensure_output_dir_def split: if_splits)

lemma run_download_cases:
  assumes "new_service e dir video (Some cli_progress_callback) w = (Inr svc, w1)"
  shows "fst (download e svc url w1) = Inr (s, f) \<Longrightarrow>
           run_download e url dir video w =
             (Inr (if f = 0 then 0 else 1),
              log_call INFO ''Done. Success: %d, Failed: %d'' [AInt s, AInt f]
                (snd (download e svc url w1)))"
    and "fst (download e svc url w1) = Inl err \<Longrightarrow>
           run_download e url dir video w =
             (Inr 1, log_call ERROR ''%s'' [AErr err] (snd (download e svc url w1)))"
proof -
  show "run_download e url dir video w =
             (Inr (if f = 0 then 0 else 1),
              log_call INFO ''Done. Success: %d, Failed: %d'' [AInt s, AInt f]
                (snd (download e svc url w1)))"
    if "fst (download e svc url w1) = Inr (s, f)"
    using assms that by (cases "download e svc url w1") (simp add: run_download_def)
  show "run_download e url dir video w =
             (Inr 1, log_call ERROR ''%s'' [AErr err] (snd (download e svc url w1)))"
    if a: "fst (download e svc url w1) = Inl err"
    using assms a download_error_is_ffmpeg [OF a]
    by (cases "download e svc url w1") (simp add: run_download_def)
qed

text \<open>
  Claim C1 at three requests that fail: a metadata query that raises, a download that the
  library ends with an error after the only item has finished, and a playlist whose
  entries are all unavailable. The first two are logged at level ERROR, no item is
  finished in the first and the third, and \<open>main\<close> returns exit code 0 each time,
  whereas a playlist of two with one item finished returns 1.
\<close>
theorem failed_request_exits_zero:
  "main (sample_env (Some ''/usr/bin/ffmpeg'') (Inl (DownloadError ''Video unavailable'')) [] None)
        (sample_args ''https://www.youtube.com/watch?v=abc123'' None) empty_world
     = (Inr 0,
        \<lparr>w_log = [(INFO, ''URL: %s'', [AStr ''https://www.youtube.com/watch?v=abc123'']),
                  (INFO, ''Output: %s | Mode: %s'', [AStr ''/app/download'', AStr ''audio (WAV)'']),
                  (ERROR, ''Failed to fetch playlist info: %s'',
                   [AErr (DownloadError ''Video unavailable'')]),
                  (ERROR, ''Invalid or inaccessible URL: %s'',
                   [AStr ''https://www.youtube.com/watch?v=abc123'']),
                  (INFO, ''Done. Success: %d, Failed: %d'', [AInt 0, AInt 0])],
         w_net = [ExtractInfo ''https://www.youtube.com/watch?v=abc123''],
         w_dirs = [\<lparr>p_root = ''/'', p_parts = []\<rparr>,
                   \<lparr>p_root = ''/'', p_parts = [''app'']\<rparr>,
                   \<lparr>p_root = ''/'', p_parts = [''app'', ''download'']\<rparr>]\<rparr>)
   \<and> fst (main (sample_env (Some ''/usr/bin/ffmpeg'') (Inr (Some (sample_info [sample_entry])))
                   [sample_event ''finished''] (Some (DownloadError ''Connection reset'')))
              (sample_args ''https://www.youtube.com/watch?v=abc123'' None) empty_world) = Inr 0
   \<and> w_log (snd (main (sample_env (Some ''/usr/bin/ffmpeg'') (Inr (Some (sample_info [sample_entry])))
                   [sample_event ''finished''] (Some (DownloadError ''Connection reset'')))
              (sample_args ''https://www.youtube.com/watch?v=abc123'' None) empty_world))
     = [(INFO, ''URL: %s'', [AStr ''https://www.youtube.com/watch?v=abc123'']),
        (INFO, ''Output: %s | Mode: %s'', [AStr ''/app/download'', AStr ''audio (WAV)'']),
        (INFO, ''Total items to process: %s'', [AInt 1]),
        (INFO, ''[%d/%d] %s '' @ EM_DASH @ '' %s'',
         [AInt 1, AInt 1, AStr ''finished'', AStr ''a.webm'']),
        (INFO, ''Finished: %s'', [AStr ''a.webm'']),
        (ERROR, ''Download error: %s'', [AErr (DownloadError ''Connection reset'')]),
        (INFO, ''Done. Success: %d, Failed: %d'', [AInt 1, AInt 0])]
   \<and> fst (main (sample_env (Some ''/usr/bin/ffmpeg'') (Inr (Some (sample_info [None, None]))) [] None)
              (sample_args ''https://www.youtube.com/watch?v=abc123'' None) empty_world) = Inr 0
   \<and> w_log (snd (main (sample_env (Some ''/usr/bin/ffmpeg'') (Inr (Some (sample_info [None, None]))) [] None)
              (sample_args ''https://www.youtube.com/watch?v=abc123'' None) empty_world))
     = [(INFO, ''URL: %s'', [AStr ''https://www.youtube.com/watch?v=abc123'']),
        (INFO, ''Output: %s | Mode: %s'', [AStr ''/app/download'', AStr ''audio (WAV)'']),
        (INFO, ''Total items to process: %s'', [AInt 0]),
        (INFO, ''Done. Success: %d, Failed: %d'', [AInt 0, AInt 0])]
   \<and> fst (main (sample_env (Some ''/usr/bin/ffmpeg'')
                   (Inr (Some (sample_info [sample_entry, sample_entry])))
                   [sample_event ''finished''] None)
              (sample_args ''https://www.youtube.com/watch?v=abc123'' None) empty_world) = Inr 1"
  by code_simp

end
